theory Spec2Isabelle
  imports Main
begin

section \<open>The website-fetcher tool server (mcp_simple_tool/server.py)\<close>

text \<open>
  The server registers two handlers on an MCP \<open>Server\<close>: \<open>handle_tool_call\<close> and
  \<open>list_tools\<close>. The tool-call handler checks the tool name, then the presence of the
  key \<open>url\<close> in the argument dictionary, and then awaits one of two fetch coroutines.
  Each fetch coroutine opens an HTTP client, awaits one \<open>client.get(url)\<close>, calls
  \<open>response.raise_for_status()\<close> and wraps \<open>response.text\<close> in one \<open>TextContent\<close>.

  Exceptions are values of a sum type (\<open>Inl\<close> is the raised exception). The calls to
  \<open>client.get\<close> are the only effect of the handler; every function that can reach such
  a call returns, beside its result, the list of the calls it made, in order.
\<close>

subsection \<open>Data\<close>

text \<open>JSON values: the argument dictionary of a tool call maps strings to them, and
  the input schema of a tool is one.\<close>

datatype json =
    JNull
  | JBool bool
  | JNum int
  | JStr string
  | JArr "json list"
  | JObj "(string \<times> json) list"

text \<open>\<open>types.TextContent(type=..., text=...)\<close>, the only content block the server builds.\<close>

datatype content_block = TextContent (block_type: string) (block_text: string)

text \<open>\<open>types.Tool(name=..., title=..., description=..., inputSchema=...)\<close>.\<close>

record tool =
  tool_name :: string
  title :: string
  description :: string
  inputSchema :: json

text \<open>The two ways the source builds its HTTP client:
  \<open>create_mcp_http_client(headers=headers)\<close> in \<open>fetch_website\<close> and
  \<open>httpx.AsyncClient(headers=headers)\<close> in \<open>fetch_website_via_ssl\<close>.\<close>

datatype client_kind = McpHttpClient | HttpxAsyncClient

text \<open>One call \<open>client.get(url)\<close>: the client it is made on, the headers that client
  was built with, and the value passed as \<open>url\<close>. The handler passes
  \<open>arguments["url"]\<close> as it is, so the value is any JSON value.\<close>

record get_call =
  call_client :: client_kind
  call_headers :: "(string \<times> string) list"
  call_url :: json

text \<open>What the source reads of an \<open>httpx.Response\<close>: \<open>response.text\<close> (the body decoded
  as text; the field \<open>response_text\<close>) and, through \<open>raise_for_status\<close>, the status
  code.\<close>

record response =
  status_code :: int
  response_text :: string

text \<open>The exceptions that leave the handler: the \<open>ValueError\<close>s it raises itself,
  the \<open>httpx.HTTPStatusError\<close> of \<open>raise_for_status\<close> (it carries the response), and
  whatever \<open>client.get\<close> raised (a transport failure, an invalid URL), kept opaque.\<close>

datatype error =
    ValueError string
  | HTTPStatusError response
  | ClientGetError string

text \<open>
  The HTTP library and the network are outside the repository and are a parameter:
  \<^item> \<open>get_outcome\<close> is what \<open>await client.get(url)\<close> does for a call: it raises (\<open>Inl\<close>)
    or returns a response;
  \<open>raise_for_status\<close> below returns on every 2xx status and raises on every 4xx and
  5xx status in all releases of httpx; on the remaining statuses (1xx, 3xx, out of range)
  the releases differ, and
  \<^item> \<open>raises_outside_error_classes\<close> says which behaviour the installed release has.
\<close>

record http_env =
  get_outcome :: "get_call \<Rightarrow> string + response"
  raises_outside_error_classes :: bool

definition raise_for_status :: "http_env \<Rightarrow> response \<Rightarrow> error + unit" where
  "raise_for_status env response =
     (if 200 \<le> status_code response \<and> status_code response \<le> 299 then Inr ()
      else if (400 \<le> status_code response \<and> status_code response \<le> 599)
              \<or> raises_outside_error_classes env
           then Inl (HTTPStatusError response)
      else Inr ())"

subsection \<open>The fetch coroutines\<close>

definition fetch_website ::
  "http_env \<Rightarrow> json \<Rightarrow> get_call list \<times> (error + content_block list)" where
  "fetch_website env url =
     (let headers =
            [(''User-Agent'', ''MCP Test Server (github.com/modelcontextprotocol/python-sdk)'')];
          call = \<lparr>call_client = McpHttpClient, call_headers = headers, call_url = url\<rparr>
      in case get_outcome env call of
           Inl e \<Rightarrow> ([call], Inl (ClientGetError e))
         | Inr response \<Rightarrow>
             (case raise_for_status env response of
                Inl e \<Rightarrow> ([call], Inl e)
              | Inr _ \<Rightarrow> ([call], Inr [TextContent ''text'' (response_text response)])))"

definition fetch_website_via_ssl ::
  "http_env \<Rightarrow> json \<Rightarrow> get_call list \<times> (error + content_block list)" where
  "fetch_website_via_ssl env url =
     (let headers =
            [(''User-Agent'', ''MCP Test Server (github.com/modelcontextprotocol/python-sdk)'')];
          call = \<lparr>call_client = HttpxAsyncClient, call_headers = headers, call_url = url\<rparr>
      in case get_outcome env call of
           Inl e \<Rightarrow> ([call], Inl (ClientGetError e))
         | Inr response \<Rightarrow>
             (case raise_for_status env response of
                Inl e \<Rightarrow> ([call], Inl e)
              | Inr _ \<Rightarrow> ([call], Inr [TextContent ''text'' (response_text response)])))"

subsection \<open>The tool-call handler\<close>

text \<open>The two messages of the handler's \<open>ValueError\<close>s: \<open>f"Unknown tool: {name}"\<close> and
  \<open>"Missing required argument 'url'"\<close> (the apostrophe is character 0x27).\<close>

definition unknown_tool_message :: "string \<Rightarrow> string" where
  "unknown_tool_message name = ''Unknown tool: '' @ name"

definition missing_argument_message :: string where
  "missing_argument_message = ''Missing required argument '' @ [CHR 0x27] @ ''url'' @ [CHR 0x27]"

text \<open>The handler returns the list of the fetch coroutine it awaited; a Python function
  that ends without \<open>return\<close> returns \<open>None\<close>, which is the last branch here.\<close>

definition handle_tool_call ::
  "http_env \<Rightarrow> string \<Rightarrow> (string \<rightharpoonup> json) \<Rightarrow>
     get_call list \<times> (error + content_block list option)" where
  "handle_tool_call env name arguments =
     (if name \<notin> set [''fetch'', ''fetch_web_content_via_ssl'']
        then ([], Inl (ValueError (unknown_tool_message name)))
      else case arguments ''url'' of
        None \<Rightarrow> ([], Inl (ValueError missing_argument_message))
      | Some url \<Rightarrow>
          if name = ''fetch''
            then (case fetch_website env url of (calls, r) \<Rightarrow> (calls, map_sum id Some r))
          else if name = ''fetch_web_content_via_ssl''
            then (case fetch_website_via_ssl env url of (calls, r) \<Rightarrow> (calls, map_sum id Some r))
          else ([], Inr None))"

subsection \<open>The tool catalog\<close>

definition list_tools :: "unit \<Rightarrow> tool list" where
  "list_tools _ =
     [ \<lparr>tool_name = ''fetch'',
        title = ''Website Fetcher'',
        description = ''Fetches a website and returns its content'',
        inputSchema = JObj
          [(''type'', JStr ''object''),
           (''required'', JArr [JStr ''url'']),
           (''properties'', JObj
              [(''url'', JObj
                 [(''type'', JStr ''string''),
                  (''description'', JStr ''URL to fetch'')])])]\<rparr>,
       \<lparr>tool_name = ''fetch_web_content_via_ssl'',
        title = ''Website Fetcher via SSL'',
        description =
          ''Fetches a website and returns its content using a secure SSL connection'',
        inputSchema = JObj
          [(''type'', JStr ''object''),
           (''required'', JArr [JStr ''url'']),
           (''properties'', JObj
              [(''url'', JObj
                 [(''type'', JStr ''string''),
                  (''description'', JStr ''URL to fetch over SSL'')])])]\<rparr> ]"

text \<open>Reading a member of a JSON object and the elements of a JSON array, to state what
  a schema says.\<close>

fun member :: "string \<Rightarrow> json \<Rightarrow> json option" where
  "member k (JObj kvs) = map_of kvs k"
| "member k _ = None"

fun elements :: "json \<Rightarrow> json list" where
  "elements (JArr xs) = xs"
| "elements _ = []"

subsection \<open>The session loop\<close>

text \<open>
  The loop that reads a peer's requests and calls the two handlers is \<open>Server.run\<close> of
  the MCP library, which the repository only calls. Its states, requests and responses
  follow section 4.4 and section 7 of the specification.
\<close>

datatype session_state = Uninitialized | Initialized | Closed

datatype peer_request = ListTools | CallTool string "string \<rightharpoonup> json"

datatype peer_response =
    ToolCatalog "tool list"
  | ToolResult "content_block list"
  | RequestError error

text \<open>Modelled from the spec: the error taxonomy of section 7, which is not in the
  source. The handler's two \<open>ValueError\<close>s (UnknownTool, MissingArgument) and the
  upstream HTTP status error are request-level; any other failure is fatal to the
  session.\<close>

fun request_level :: "error \<Rightarrow> bool" where
  "request_level (ValueError _) = True"
| "request_level (HTTPStatusError _) = True"
| "request_level (ClientGetError _) = False"

text \<open>Modelled from the spec: one step of the session loop of section 4.4, which is
  not in the source (it is the MCP library's \<open>Server.run\<close>). Requests are served only
  while the session is initialized. "List tools" delegates to \<open>list_tools\<close> and always
  succeeds. "Call tool" delegates to \<open>handle_tool_call\<close>: a result is returned to the
  peer; a request-level error is returned to the peer as an error response that carries
  the error, and the session stays initialized; any other failure closes the session.
  The step returns the new state, the response written to the peer (if any) and the
  \<open>client.get\<close> calls made.\<close>

definition session_step ::
  "http_env \<Rightarrow> session_state \<Rightarrow> peer_request \<Rightarrow>
     session_state \<times> peer_response option \<times> get_call list" where
  "session_step env st req =
     (if st \<noteq> Initialized then (st, None, [])
      else case req of
        ListTools \<Rightarrow> (Initialized, Some (ToolCatalog (list_tools ())), [])
      | CallTool name arguments \<Rightarrow>
          (case handle_tool_call env name arguments of
             (calls, Inr (Some blocks)) \<Rightarrow> (Initialized, Some (ToolResult blocks), calls)
           | (calls, Inr None) \<Rightarrow> (Closed, None, calls)
           | (calls, Inl e) \<Rightarrow>
               if request_level e then (Initialized, Some (RequestError e), calls)
               else (Closed, None, calls)))"

text \<open>Modelled from the spec: the loop of section 4.4 over the requests of one session,
  one request at a time, the responses in the order of the requests.\<close>

fun session_loop :: "http_env \<Rightarrow> session_state \<Rightarrow> peer_request list \<Rightarrow> peer_response list" where
  "session_loop env st [] = []"
| "session_loop env st (req # reqs) =
     (case session_step env st req of
        (st', resp, calls) \<Rightarrow>
          (case resp of None \<Rightarrow> [] | Some r \<Rightarrow> [r]) @ session_loop env st' reqs)"

subsection \<open>A concrete HTTP environment\<close>

text \<open>An environment with one page that answers 200 with the body \<open>hello\<close>, one that
  answers 404, no other reachable host, and a client that raises on a \<open>url\<close> that is not
  a string.\<close>

definition stub_env :: http_env where
  "stub_env =
     \<lparr>get_outcome = (\<lambda>call. case call_url call of
          JStr u \<Rightarrow>
            if u = ''http://example.test/hello''
              then Inr \<lparr>status_code = 200, response_text = ''hello''\<rparr>
            else if u = ''http://example.test/missing''
              then Inr \<lparr>status_code = 404, response_text = ''not found''\<rparr>
            else Inl ''ConnectError''
        | _ \<Rightarrow> Inl ''TypeError''),
      raises_outside_error_classes = True\<rparr>"

subsection \<open>Reading a tool's input schema\<close>

text \<open>The entries of the schema's \<open>required\<close> array, and the \<open>type\<close> that the schema's
  \<open>properties\<close> give to a property.\<close>

definition required_fields :: "json \<Rightarrow> json list" where
  "required_fields schema =
     (case member ''required'' schema of None \<Rightarrow> [] | Some r \<Rightarrow> elements r)"

definition property_type :: "string \<Rightarrow> json \<Rightarrow> json option" where
  "property_type k schema =
     (case member ''properties'' schema of
        None \<Rightarrow> None
      | Some props \<Rightarrow> (case member k props of None \<Rightarrow> None | Some p \<Rightarrow> member ''type'' p))"

subsection \<open>The schema check at the executor's boundary\<close>

text \<open>
  The handler itself tests the tool name and the presence of the key \<open>url\<close>, nothing
  else. It is registered with \<open>@app.call_tool()\<close>, and the catalog declares for each tool
  an input schema; the check of a call's argument dictionary against that schema sits
  in front of the handler, in the MCP library, and is not in the source. The
  definitions below follow section 4.2 and the design notes (section 9) of the
  specification.
\<close>











section \<open>Properties\<close>

subsection \<open>The branches of the handler\<close>

lemma handle_unknown:
  "name \<noteq> ''fetch'' \<Longrightarrow> name \<noteq> ''fetch_web_content_via_ssl'' \<Longrightarrow>
     handle_tool_call env name arguments = ([], Inl (ValueError (unknown_tool_message name)))"
  by (simp add: handle_tool_call_def)

lemma handle_missing:
  "name = ''fetch'' \<or> name = ''fetch_web_content_via_ssl'' \<Longrightarrow> arguments ''url'' = None \<Longrightarrow>
     handle_tool_call env name arguments = ([], Inl (ValueError missing_argument_message))"
  by (auto simp add: handle_tool_call_def)

lemma handle_fetch:
  "arguments ''url'' = Some url \<Longrightarrow>
     handle_tool_call env ''fetch'' arguments =
       (fst (fetch_website env url), map_sum id Some (snd (fetch_website env url)))"
  by (simp add: handle_tool_call_def split: prod.splits)

lemma handle_ssl:
  "arguments ''url'' = Some url \<Longrightarrow>
     handle_tool_call env ''fetch_web_content_via_ssl'' arguments =
       (fst (fetch_website_via_ssl env url), map_sum id Some (snd (fetch_website_via_ssl env url)))"
  by (simp add: handle_tool_call_def split: prod.splits)

lemma fetch_website_calls:
  "fst (fetch_website env url) =
     [\<lparr>call_client = McpHttpClient, call_headers = [(''User-Agent'', ''MCP Test Server (github.com/modelcontextprotocol/python-sdk)'')], call_url = url\<rparr>]"
  by (simp add: fetch_website_def Let_def split: sum.splits)

lemma fetch_website_via_ssl_calls:
  "fst (fetch_website_via_ssl env url) =
     [\<lparr>call_client = HttpxAsyncClient, call_headers = [(''User-Agent'', ''MCP Test Server (github.com/modelcontextprotocol/python-sdk)'')], call_url = url\<rparr>]"
  by (simp add: fetch_website_via_ssl_def Let_def split: sum.splits)

lemma fetch_website_result:
  "snd (fetch_website env url) =
     (case get_outcome env \<lparr>call_client = McpHttpClient, call_headers = [(''User-Agent'', ''MCP Test Server (github.com/modelcontextprotocol/python-sdk)'')], call_url = url\<rparr> of
        Inl e \<Rightarrow> Inl (ClientGetError e)
      | Inr response \<Rightarrow>
          (case raise_for_status env response of
             Inl e \<Rightarrow> Inl e
           | Inr _ \<Rightarrow> Inr [TextContent ''text'' (response_text response)]))"
  by (simp add: fetch_website_def Let_def split: sum.splits)

lemma fetch_website_via_ssl_result:
  "snd (fetch_website_via_ssl env url) =
     (case get_outcome env \<lparr>call_client = HttpxAsyncClient, call_headers = [(''User-Agent'', ''MCP Test Server (github.com/modelcontextprotocol/python-sdk)'')], call_url = url\<rparr> of
        Inl e \<Rightarrow> Inl (ClientGetError e)
      | Inr response \<Rightarrow>
          (case raise_for_status env response of
             Inl e \<Rightarrow> Inl e
           | Inr _ \<Rightarrow> Inr [TextContent ''text'' (response_text response)]))"
  by (simp add: fetch_website_via_ssl_def Let_def split: sum.splits)

lemma raise_for_status_success:
  "200 \<le> status_code response \<Longrightarrow> status_code response \<le> 299 \<Longrightarrow>
     raise_for_status env response = Inr ()"
  by (simp add: raise_for_status_def)

lemma raise_for_status_error:
  "400 \<le> status_code response \<Longrightarrow> status_code response \<le> 599 \<Longrightarrow>
     raise_for_status env response = Inl (HTTPStatusError response)"
  by (simp add: raise_for_status_def)

text \<open>A registered name with a \<open>url\<close> present: one \<open>client.get\<close> on the tool's client,
  and a result decided by that call's outcome alone.\<close>

lemma handle_valid:
  assumes "name \<in> {''fetch'', ''fetch_web_content_via_ssl''}"
    and "arguments ''url'' = Some url"
  shows "handle_tool_call env name arguments =
     ([\<lparr>call_client = (if name = ''fetch'' then McpHttpClient else HttpxAsyncClient),
        call_headers = [(''User-Agent'', ''MCP Test Server (github.com/modelcontextprotocol/python-sdk)'')], call_url = url\<rparr>],
      case get_outcome env
             \<lparr>call_client = (if name = ''fetch'' then McpHttpClient else HttpxAsyncClient),
              call_headers = [(''User-Agent'', ''MCP Test Server (github.com/modelcontextprotocol/python-sdk)'')], call_url = url\<rparr> of
        Inl e \<Rightarrow> Inl (ClientGetError e)
      | Inr response \<Rightarrow>
          (case raise_for_status env response of
             Inl e \<Rightarrow> Inl e
           | Inr _ \<Rightarrow> Inr (Some [TextContent ''text'' (response_text response)])))"
proof -
  from assms(1) consider "name = ''fetch''" | "name = ''fetch_web_content_via_ssl''"
    by auto
  then show ?thesis
  proof cases
    case 1
    then show ?thesis
      using assms(2) handle_fetch [of arguments url env]
      by (simp add: fetch_website_calls fetch_website_result split: sum.splits)
  next
    case 2
    then show ?thesis
      using assms(2) handle_ssl [of arguments url env]
      by (simp add: fetch_website_via_ssl_calls fetch_website_via_ssl_result split: sum.splits)
  qed
qed

subsection \<open>Request-level errors of the handler\<close>

text \<open>C1: for every tool name that is neither \<open>fetch\<close> nor \<open>fetch_web_content_via_ssl\<close>
  and every argument dictionary, the handler raises the \<open>ValueError\<close> whose message is
  \<open>Unknown tool: \<close> followed by the name, without any \<open>client.get\<close>; the session loop
  answers with that error, stays initialized, and serves the requests that follow as
  an initialized session does.\<close>

theorem unknown_tool_raises:
  assumes "name \<notin> {''fetch'', ''fetch_web_content_via_ssl''}"
  shows "handle_tool_call env name arguments = ([], Inl (ValueError (''Unknown tool: '' @ name)))
       \<and> session_step env Initialized (CallTool name arguments) =
           (Initialized, Some (RequestError (ValueError (''Unknown tool: '' @ name))), [])
       \<and> session_loop env Initialized (CallTool name arguments # reqs) =
           RequestError (ValueError (''Unknown tool: '' @ name)) # session_loop env Initialized reqs"
proof -
  from assms have h: "handle_tool_call env name arguments =
      ([], Inl (ValueError (''Unknown tool: '' @ name)))"
    by (simp add: handle_unknown unknown_tool_message_def)
  then have s: "session_step env Initialized (CallTool name arguments) =
           (Initialized, Some (RequestError (ValueError (''Unknown tool: '' @ name))), [])"
    by (simp add: session_step_def)
  then show ?thesis using h by simp
qed

theorem unknown_tool_raises_witness:
  "''delete'' \<notin> {''fetch'', ''fetch_web_content_via_ssl''}
   \<and> handle_tool_call stub_env ''delete'' Map.empty = ([], Inl (ValueError ''Unknown tool: delete''))
   \<and> session_loop stub_env Initialized [CallTool ''delete'' Map.empty, ListTools] =
        [RequestError (ValueError ''Unknown tool: delete''), ToolCatalog (list_tools ())]"
  using unknown_tool_raises [of "''delete''" stub_env Map.empty "[ListTools]"]
  by (simp add: session_step_def)

text \<open>C2: for each of the two registered tool names and every argument dictionary
  without the key \<open>url\<close>, the handler raises the \<open>ValueError\<close> with the message
  \<open>Missing required argument 'url'\<close>, the same for both names, without any
  \<open>client.get\<close>.\<close>

theorem missing_url_raises:
  assumes "name \<in> {''fetch'', ''fetch_web_content_via_ssl''}"
    and "''url'' \<notin> dom arguments"
  shows "handle_tool_call env name arguments =
           ([], Inl (ValueError (''Missing required argument '' @ [CHR 0x27] @ ''url'' @ [CHR 0x27])))"
  using assms handle_missing [of name arguments env]
  by (auto simp add: missing_argument_message_def)

theorem missing_url_raises_witness:
  "''fetch_web_content_via_ssl'' \<in> {''fetch'', ''fetch_web_content_via_ssl''}
   \<and> ''url'' \<notin> dom [''uri'' \<mapsto> JStr ''http://example.test/hello'']
   \<and> handle_tool_call stub_env ''fetch_web_content_via_ssl''
        [''uri'' \<mapsto> JStr ''http://example.test/hello''] =
        ([], Inl (ValueError (''Missing required argument '' @ [CHR 0x27] @ ''url'' @ [CHR 0x27])))"
  using missing_url_raises [of "''fetch_web_content_via_ssl''"
      "[''uri'' \<mapsto> JStr ''http://example.test/hello'']" stub_env]
  by simp

text \<open>C9: the name check comes first. For every unregistered name the handler raises
  the unknown-tool error for every argument dictionary, the empty one included, and
  that error is never the missing-argument error.\<close>

theorem unknown_tool_before_missing_url:
  assumes "name \<notin> {''fetch'', ''fetch_web_content_via_ssl''}"
  shows "snd (handle_tool_call env name arguments) = Inl (ValueError (unknown_tool_message name))
       \<and> snd (handle_tool_call env name Map.empty) = Inl (ValueError (unknown_tool_message name))
       \<and> snd (handle_tool_call env name arguments) \<noteq> Inl (ValueError missing_argument_message)"
  using assms handle_unknown [of name env arguments] handle_unknown [of name env Map.empty]
  by (simp add: unknown_tool_message_def missing_argument_message_def)

theorem unknown_tool_before_missing_url_witness:
  "''fetch_website'' \<notin> {''fetch'', ''fetch_web_content_via_ssl''}
   \<and> snd (handle_tool_call stub_env ''fetch_website'' Map.empty) =
       Inl (ValueError ''Unknown tool: fetch_website'')
   \<and> snd (handle_tool_call stub_env ''fetch_website'' Map.empty) \<noteq>
       Inl (ValueError missing_argument_message)"
  using unknown_tool_before_missing_url [of "''fetch_website''" stub_env Map.empty]
  by (simp add: unknown_tool_message_def missing_argument_message_def)

subsection \<open>The catalog\<close>

text \<open>C3: \<open>list_tools\<close> returns exactly two descriptors, \<open>fetch\<close> first and
  \<open>fetch_web_content_via_ssl\<close> second; the input schema of each has type \<open>object\<close>,
  lists \<open>url\<close> as required and gives the property \<open>url\<close> the type \<open>string\<close>; the
  function reads nothing, so any two invocations return the same catalog.\<close>

theorem list_tools_catalog:
  "(\<forall>u v. list_tools u = list_tools v)
   \<and> length (list_tools ()) = 2
   \<and> map tool_name (list_tools ()) = [''fetch'', ''fetch_web_content_via_ssl'']
   \<and> map (\<lambda>t. member ''type'' (inputSchema t)) (list_tools ()) =
        [Some (JStr ''object''), Some (JStr ''object'')]
   \<and> map (\<lambda>t. required_fields (inputSchema t)) (list_tools ()) =
        [[JStr ''url''], [JStr ''url'']]
   \<and> map (\<lambda>t. property_type ''url'' (inputSchema t)) (list_tools ()) =
        [Some (JStr ''string''), Some (JStr ''string'')]"
  by (simp add: list_tools_def required_fields_def property_type_def)

subsection \<open>Fetching\<close>

text \<open>C4: for a registered tool name and a \<open>url\<close> argument whose \<open>client.get\<close> returns a
  response with a 2xx status, the handler makes that one call and returns exactly one
  \<open>TextContent\<close> of type \<open>text\<close> whose text is the response's text.\<close>

theorem success_returns_body:
  assumes "name \<in> {''fetch'', ''fetch_web_content_via_ssl''}"
    and "arguments ''url'' = Some url"
    and "get_outcome env
           \<lparr>call_client = (if name = ''fetch'' then McpHttpClient else HttpxAsyncClient),
            call_headers = [(''User-Agent'', ''MCP Test Server (github.com/modelcontextprotocol/python-sdk)'')], call_url = url\<rparr> = Inr response"
    and "200 \<le> status_code response" and "status_code response \<le> 299"
  shows "handle_tool_call env name arguments =
           ([\<lparr>call_client = (if name = ''fetch'' then McpHttpClient else HttpxAsyncClient),
              call_headers = [(''User-Agent'', ''MCP Test Server (github.com/modelcontextprotocol/python-sdk)'')], call_url = url\<rparr>],
            Inr (Some [TextContent ''text'' (response_text response)]))"
  using assms handle_valid [of name arguments url env] raise_for_status_success [of response env]
  by simp

theorem success_returns_body_witness:
  "''fetch'' \<in> {''fetch'', ''fetch_web_content_via_ssl''}
   \<and> [''url'' \<mapsto> JStr ''http://example.test/hello''] ''url'' = Some (JStr ''http://example.test/hello'')
   \<and> get_outcome stub_env
        \<lparr>call_client = McpHttpClient, call_headers = [(''User-Agent'', ''MCP Test Server (github.com/modelcontextprotocol/python-sdk)'')],
         call_url = JStr ''http://example.test/hello''\<rparr> =
        Inr \<lparr>status_code = 200, response_text = ''hello''\<rparr>
   \<and> snd (handle_tool_call stub_env ''fetch'' [''url'' \<mapsto> JStr ''http://example.test/hello'']) =
        Inr (Some [TextContent ''text'' ''hello''])"
  using success_returns_body [of "''fetch''" "[''url'' \<mapsto> JStr ''http://example.test/hello'']"
      "JStr ''http://example.test/hello''" stub_env "\<lparr>status_code = 200, response_text = ''hello''\<rparr>"]
  by (simp add: stub_env_def)

text \<open>C5: for a registered tool name and a \<open>url\<close> argument whose \<open>client.get\<close> returns a
  response with a 4xx or 5xx status, the handler raises the HTTP status error that
  carries that response (and so its status); the session loop answers with that error,
  stays initialized, and serves the requests that follow.\<close>

theorem error_status_raises:
  assumes "name \<in> {''fetch'', ''fetch_web_content_via_ssl''}"
    and "arguments ''url'' = Some url"
    and "get_outcome env
           \<lparr>call_client = (if name = ''fetch'' then McpHttpClient else HttpxAsyncClient),
            call_headers = [(''User-Agent'', ''MCP Test Server (github.com/modelcontextprotocol/python-sdk)'')], call_url = url\<rparr> = Inr response"
    and "400 \<le> status_code response" and "status_code response \<le> 599"
  shows "snd (handle_tool_call env name arguments) = Inl (HTTPStatusError response)
       \<and> fst (session_step env Initialized (CallTool name arguments)) = Initialized
       \<and> fst (snd (session_step env Initialized (CallTool name arguments))) =
            Some (RequestError (HTTPStatusError response))
       \<and> session_loop env Initialized (CallTool name arguments # reqs) =
            RequestError (HTTPStatusError response) # session_loop env Initialized reqs"
proof -
  have h: "handle_tool_call env name arguments =
      ([\<lparr>call_client = (if name = ''fetch'' then McpHttpClient else HttpxAsyncClient),
         call_headers = [(''User-Agent'', ''MCP Test Server (github.com/modelcontextprotocol/python-sdk)'')], call_url = url\<rparr>], Inl (HTTPStatusError response))"
    using assms handle_valid [of name arguments url env] raise_for_status_error [of response env]
    by simp
  then have s: "session_step env Initialized (CallTool name arguments) =
      (Initialized, Some (RequestError (HTTPStatusError response)),
       [\<lparr>call_client = (if name = ''fetch'' then McpHttpClient else HttpxAsyncClient),
         call_headers = [(''User-Agent'', ''MCP Test Server (github.com/modelcontextprotocol/python-sdk)'')], call_url = url\<rparr>])"
    by (simp add: session_step_def)
  show ?thesis using h s by simp
qed

theorem error_status_raises_witness:
  "''fetch'' \<in> {''fetch'', ''fetch_web_content_via_ssl''}
   \<and> [''url'' \<mapsto> JStr ''http://example.test/missing''] ''url'' = Some (JStr ''http://example.test/missing'')
   \<and> get_outcome stub_env
        \<lparr>call_client = McpHttpClient, call_headers = [(''User-Agent'', ''MCP Test Server (github.com/modelcontextprotocol/python-sdk)'')],
         call_url = JStr ''http://example.test/missing''\<rparr> =
        Inr \<lparr>status_code = 404, response_text = ''not found''\<rparr>
   \<and> snd (handle_tool_call stub_env ''fetch'' [''url'' \<mapsto> JStr ''http://example.test/missing'']) =
        Inl (HTTPStatusError \<lparr>status_code = 404, response_text = ''not found''\<rparr>)
   \<and> session_loop stub_env Initialized
        [CallTool ''fetch'' [''url'' \<mapsto> JStr ''http://example.test/missing''], ListTools] =
        [RequestError (HTTPStatusError \<lparr>status_code = 404, response_text = ''not found''\<rparr>),
         ToolCatalog (list_tools ())]"
  using error_status_raises [of "''fetch''" "[''url'' \<mapsto> JStr ''http://example.test/missing'']"
      "JStr ''http://example.test/missing''" stub_env
      "\<lparr>status_code = 404, response_text = ''not found''\<rparr>" "[ListTools]"]
  by (simp add: stub_env_def session_step_def)



subsection \<open>What is checked of the arguments before a request\<close>











text \<open>C10: for a registered tool name the handler reads only the key \<open>url\<close>: on two
  argument dictionaries that both hold \<open>url\<close> with the same value it makes the same call
  and has the same result or error, whatever other keys they hold.\<close>

theorem only_url_is_read:
  assumes "name \<in> {''fetch'', ''fetch_web_content_via_ssl''}"
    and "arguments1 ''url'' = Some v" and "arguments2 ''url'' = Some v"
  shows "handle_tool_call env name arguments1 = handle_tool_call env name arguments2"
  using assms handle_valid [of name arguments1 v env] handle_valid [of name arguments2 v env]
  by simp

theorem only_url_is_read_witness:
  "''fetch'' \<in> {''fetch'', ''fetch_web_content_via_ssl''}
   \<and> [''url'' \<mapsto> JStr ''http://example.test/hello''] ''url'' = Some (JStr ''http://example.test/hello'')
   \<and> [''url'' \<mapsto> JStr ''http://example.test/hello'', ''method'' \<mapsto> JStr ''POST''] ''url'' =
       Some (JStr ''http://example.test/hello'')
   \<and> handle_tool_call stub_env ''fetch'' [''url'' \<mapsto> JStr ''http://example.test/hello''] =
     handle_tool_call stub_env ''fetch''
       [''url'' \<mapsto> JStr ''http://example.test/hello'', ''method'' \<mapsto> JStr ''POST'']"
  using only_url_is_read [of "''fetch''" "[''url'' \<mapsto> JStr ''http://example.test/hello'']"
      "JStr ''http://example.test/hello''"
      "[''url'' \<mapsto> JStr ''http://example.test/hello'', ''method'' \<mapsto> JStr ''POST'']" stub_env]
  by simp

end
